theory Spec2Isabelle
  imports Complex_Main "HOL-Library.Multiset" "HOL-Library.List_Lexorder" "HOL-Library.Char_ord"
begin

section \<open>Python exceptions and Streamlit output\<close>

text \<open>
  The dashboard (\<^verbatim>\<open>app.py\<close>) reports failures through Streamlit calls and catches
  Python exceptions with \<^verbatim>\<open>except Exception\<close>.  An exception is a value: its class and
  the text that \<^verbatim>\<open>str(e)\<close> yields.  Every class below derives from \<^verbatim>\<open>Exception\<close>;
  interpreter signals that do not (\<^verbatim>\<open>KeyboardInterrupt\<close>, \<^verbatim>\<open>SystemExit\<close>) are
  asynchronous and outside this model.
\<close>

datatype exc_class =
  FileNotFoundError | AttributeError | ValueError | KeyError | IndexError | TypeError | OSError

datatype py_exception = PyExc (exc_class: exc_class) (message: string)

section \<open>Double-precision numbers\<close>

text \<open>
  Emission values are IEEE 754 binary64 numbers (Python \<^verbatim>\<open>float\<close>, numpy
  \<^verbatim>\<open>float64\<close>).  \<open>Finite m e\<close> stands for the number \<open>m * 2 ^ e\<close>; a value that
  the format can hold has \<open>\<bar>m\<bar> < 2 ^ 53\<close> and \<open>- 1074 \<le> e \<le> 971\<close>.  The sign of
  zero is not recorded: it never influences a comparison.
\<close>

datatype double = Finite int int | PosInf | NegInf | NaN

fun is_double :: "double \<Rightarrow> bool" where
  "is_double (Finite m e) = (\<bar>m\<bar> < 2 ^ 53 \<and> - 1074 \<le> e \<and> e \<le> 971)"
| "is_double _ = True"

text \<open>The number of binary digits of a positive integer (Python's \<^verbatim>\<open>int.bit_length\<close>).\<close>

function bit_length :: "int \<Rightarrow> int" where
  "bit_length n = (if n \<le> 0 then 0 else 1 + bit_length (n div 2))"
  by pat_completeness auto
termination
  by (relation "measure nat") auto

declare bit_length.simps [simp del]

text \<open>\<open>round_half_even a s\<close> is \<open>a / 2 ^ s\<close> rounded to the nearest integer, ties to even.\<close>

definition round_half_even :: "int \<Rightarrow> nat \<Rightarrow> int" where
  "round_half_even a s =
     (let f = a div 2 ^ s; r = a mod 2 ^ s
      in if 2 * r < 2 ^ s then f
         else if 2 ^ s < 2 * r then f + 1
         else if even f then f else f + 1)"

text \<open>
  Rounding the exact number \<open>M * 2 ^ E\<close> to binary64, round-to-nearest, ties-to-even:
  the result keeps 53 significant bits, its exponent never goes below \<open>- 1074\<close>
  (gradual underflow), and a result of magnitude \<open>2 ^ 1024\<close> or more is an infinity.
\<close>

definition round_to_double :: "int \<Rightarrow> int \<Rightarrow> double" where
  "round_to_double M E =
     (if M = 0 then Finite 0 0
      else
        let n = bit_length \<bar>M\<bar>;
            e = max (E + n - 53) (- 1074);
            q = (if e \<le> E then \<bar>M\<bar> * 2 ^ nat (E - e)
                 else round_half_even \<bar>M\<bar> (nat (e - E)));
            q' = (if q = 2 ^ 53 then 2 ^ 52 else q);
            e' = (if q = 2 ^ 53 then e + 1 else e)
        in if 971 < e' then (if 0 < M then PosInf else NegInf)
           else Finite (sgn M * q') e')"

text \<open>The product \<^verbatim>\<open>a * b\<close> of two floats.\<close>

fun fmul :: "double \<Rightarrow> double \<Rightarrow> double" where
  "fmul NaN _ = NaN"
| "fmul _ NaN = NaN"
| "fmul (Finite m1 e1) (Finite m2 e2) = round_to_double (m1 * m2) (e1 + e2)"
| "fmul (Finite m e) PosInf = (if m = 0 then NaN else if 0 < m then PosInf else NegInf)"
| "fmul (Finite m e) NegInf = (if m = 0 then NaN else if 0 < m then NegInf else PosInf)"
| "fmul PosInf (Finite m e) = (if m = 0 then NaN else if 0 < m then PosInf else NegInf)"
| "fmul NegInf (Finite m e) = (if m = 0 then NaN else if 0 < m then NegInf else PosInf)"
| "fmul PosInf PosInf = PosInf"
| "fmul PosInf NegInf = NegInf"
| "fmul NegInf PosInf = NegInf"
| "fmul NegInf NegInf = PosInf"

text \<open>The comparisons \<^verbatim>\<open>a < b\<close> and \<^verbatim>\<open>a == b\<close>; both are false when an operand is NaN.\<close>

fun dlt :: "double \<Rightarrow> double \<Rightarrow> bool" where
  "dlt NaN _ = False"
| "dlt _ NaN = False"
| "dlt PosInf _ = False"
| "dlt _ NegInf = False"
| "dlt NegInf _ = True"
| "dlt _ PosInf = True"
| "dlt (Finite m1 e1) (Finite m2 e2) =
     (let e = min e1 e2 in m1 * 2 ^ nat (e1 - e) < m2 * 2 ^ nat (e2 - e))"

fun deq :: "double \<Rightarrow> double \<Rightarrow> bool" where
  "deq NaN _ = False"
| "deq _ NaN = False"
| "deq PosInf b = (b = PosInf)"
| "deq NegInf b = (b = NegInf)"
| "deq (Finite m1 e1) (Finite m2 e2) =
     (let e = min e1 e2 in m1 * 2 ^ nat (e1 - e) = m2 * 2 ^ nat (e2 - e))"
| "deq (Finite m e) _ = False"

text \<open>
  The float literals of \<^verbatim>\<open>app.py\<close>: each is the binary64 number nearest to the decimal
  written in the source.
\<close>

definition lit_0_5 :: double where "lit_0_5 = Finite 1 (- 1)"
definition lit_0_3 :: double where "lit_0_3 = Finite 5404319552844595 (- 54)"
definition lit_0_1 :: double where "lit_0_1 = Finite 3602879701896397 (- 55)"
definition lit_5000 :: double where "lit_5000 = Finite 5000 0"

section \<open>The emissions table\<close>

text \<open>
  A row of the DataFrame read from \<^verbatim>\<open>country_emissions.csv\<close>: its index label and the
  three columns the dashboard uses.  A DataFrame is the list of its rows in order; the
  variable \<^verbatim>\<open>emissions_df\<close> may also be \<^verbatim>\<open>None\<close>.
\<close>

record row =
  label :: nat
  Country :: string
  Year :: int
  Per_Capita_CO2_kg :: double

type_synonym dataframe = "row list"

text \<open>\<^verbatim>\<open>pd.read_csv\<close> labels the rows \<open>0, 1, 2, \<dots>\<close> in file order.\<close>

definition frame_of :: "(string \<times> int \<times> double) list \<Rightarrow> dataframe" where
  "frame_of raw =
     map (\<lambda>(i, c, y, v). \<lparr>label = i, Country = c, Year = y, Per_Capita_CO2_kg = v\<rparr>)
       (enumerate 0 raw)"

text \<open>
  \<^verbatim>\<open>get_country_data\<close>: the rows of one country, sorted by year.  \<^verbatim>\<open>sort_values\<close> is
  a sort by the key \<open>Year\<close>; rows with equal years keep their relative order here.
\<close>

definition get_country_data :: "dataframe option \<Rightarrow> string \<Rightarrow> dataframe" where
  "get_country_data df country =
     (case df of
        None \<Rightarrow> []
      | Some d \<Rightarrow> sort_key Year (filter (\<lambda>r. Country r = country) d))"

section \<open>Prediction\<close>

text \<open>
  A model object answers \<^verbatim>\<open>model.predict\<close> on a one-row frame \<open>(country, year)\<close>
  with an array of floats, or raises.  The variable \<^verbatim>\<open>model\<close> may be \<^verbatim>\<open>None\<close>.
  What happened is recorded as a list of events: calls into the libraries and what
  Streamlit was asked to show.
\<close>

type_synonym predictor = "string \<Rightarrow> int \<Rightarrow> py_exception + double list"

type_synonym comparison_entry = "string \<times> int \<times> double"

datatype event =
    St_error string
  | St_warning string
  | St_info string
  | Joblib_load
  | Predict string int
  | Fit dataframe
  | Joblib_dump
  | View_header
  | View_profile double double "int list"
  | View_trend
  | View_comparison "comparison_entry list"
  | View_targets "(string \<times> double) list"
  | View_tips
  | View_download
  | View_footer

text \<open>The body of the \<^verbatim>\<open>try\<close> block of \<^verbatim>\<open>calculate_emissions\<close>.\<close>

definition calculate_emissions_try ::
  "predictor option \<Rightarrow> string \<Rightarrow> int \<Rightarrow> (py_exception + double) \<times> event list" where
  "calculate_emissions_try model country year =
     (case model of
        None \<Rightarrow> (Inl (PyExc AttributeError ''NoneType object has no attribute predict''), [])
      | Some p \<Rightarrow>
          (case p country year of
             Inl e \<Rightarrow> (Inl e, [Predict country year])
           | Inr prediction \<Rightarrow>
               (case prediction of
                  [] \<Rightarrow> (Inl (PyExc IndexError ''index 0 is out of bounds''), [Predict country year])
                | v # _ \<Rightarrow> (Inr v, [Predict country year]))))"

text \<open>\<^verbatim>\<open>calculate_emissions\<close>: the \<^verbatim>\<open>try\<close> block with its \<^verbatim>\<open>except Exception\<close> handler.\<close>

definition calculate_emissions ::
  "predictor option \<Rightarrow> string \<Rightarrow> int \<Rightarrow> (py_exception + double) \<times> event list" where
  "calculate_emissions model country year =
     (case calculate_emissions_try model country year of
        (Inr v, evs) \<Rightarrow> (Inr v, evs)
      | (Inl e, evs) \<Rightarrow>
          (Inr lit_5000, evs @ [St_error (''Error calculating emissions: '' @ message e)]))"

text \<open>\<^verbatim>\<open>get_reduction_targets\<close>: a dict with three keys, in insertion order.\<close>

definition get_reduction_targets :: "double \<Rightarrow> (string \<times> double) list" where
  "get_reduction_targets current_emissions =
     [(''2030 (SDG Target)'', fmul current_emissions lit_0_5),
      (''2040'', fmul current_emissions lit_0_3),
      (''2050 (Net Zero)'', fmul current_emissions lit_0_1)]"

section \<open>The metrics computed in \<^verbatim>\<open>main\<close>\<close>

text \<open>
  The current value (\<^verbatim>\<open>main\<close>, the branch on
  \<^verbatim>\<open>analysis_year in country_data['Year'].values\<close>): the stored value of the first row
  of that year, else the model's prediction.  \<^verbatim>\<open>.values[0]\<close> raises on an empty array.
\<close>

definition current_emissions ::
  "predictor option \<Rightarrow> dataframe \<Rightarrow> string \<Rightarrow> int \<Rightarrow> (py_exception + double) \<times> event list" where
  "current_emissions model country_data selected_country analysis_year =
     (if analysis_year \<in> set (map Year country_data)
      then (case filter (\<lambda>r. Year r = analysis_year) country_data of
              [] \<Rightarrow> (Inl (PyExc IndexError ''index 0 is out of bounds''), [])
            | r # _ \<Rightarrow> (Inr (Per_Capita_CO2_kg r), []))
      else calculate_emissions model selected_country analysis_year)"

text \<open>
  The historical peak: \<^verbatim>\<open>.max()\<close> and \<^verbatim>\<open>.idxmax()\<close> of the value column skip
  missing values (NaN); \<^verbatim>\<open>idxmax\<close> returns the label of the first row that holds the
  maximum and fails when there is none.  \<open>nan_best\<close> scans a series of (label, value)
  pairs and keeps the first pair with the greatest value.
\<close>

fun nan_best :: "(nat \<times> double) option \<Rightarrow> (nat \<times> double) list \<Rightarrow> (nat \<times> double) option" where
  "nan_best best [] = best"
| "nan_best best ((l, v) # xs) =
     (if v = NaN then nan_best best xs
      else case best of
             None \<Rightarrow> nan_best (Some (l, v)) xs
           | Some (bl, bv) \<Rightarrow>
               if dlt bv v then nan_best (Some (l, v)) xs else nan_best best xs)"

definition value_series :: "dataframe \<Rightarrow> (nat \<times> double) list" where
  "value_series rows = map (\<lambda>r. (label r, Per_Capita_CO2_kg r)) rows"

definition series_max :: "(nat \<times> double) list \<Rightarrow> double" where
  "series_max s = (case nan_best None s of None \<Rightarrow> NaN | Some (l, v) \<Rightarrow> v)"

definition idxmax :: "(nat \<times> double) list \<Rightarrow> py_exception + nat" where
  "idxmax s =
     (case nan_best None s of
        None \<Rightarrow> Inl (PyExc ValueError ''Encountered all NA values'')
      | Some (l, v) \<Rightarrow> Inr l)"

text \<open>
  \<^verbatim>\<open>country_data.loc[l, 'Year']\<close>: the years of the rows labelled \<open>l\<close> (one year when
  the label is unique, as it is in a frame that \<^verbatim>\<open>read_csv\<close> built).
\<close>

definition loc_Year :: "dataframe \<Rightarrow> nat \<Rightarrow> py_exception + int list" where
  "loc_Year rows l =
     (case filter (\<lambda>r. label r = l) rows of
        [] \<Rightarrow> Inl (PyExc KeyError ''label not found'')
      | rs \<Rightarrow> Inr (map Year rs))"

definition historical_peak :: "dataframe \<Rightarrow> py_exception + double \<times> int list" where
  "historical_peak country_data =
     (case idxmax (value_series country_data) of
        Inl e \<Rightarrow> Inl e
      | Inr l \<Rightarrow>
          (case loc_Year country_data l of
             Inl e \<Rightarrow> Inl e
           | Inr ys \<Rightarrow> Inr (series_max (value_series country_data), ys)))"

text \<open>
  The comparison loop of \<^verbatim>\<open>main\<close>:
  \<^verbatim>\<open>for country in [selected_country] + compare_countries\<close>, appending one dict per
  country whose frame is not empty.
\<close>

fun comparison_loop ::
  "dataframe option \<Rightarrow> string list \<Rightarrow> comparison_entry list \<Rightarrow> py_exception + comparison_entry list" where
  "comparison_loop df [] comparison_data = Inr comparison_data"
| "comparison_loop df (country # rest) comparison_data =
     (case get_country_data df country of
        [] \<Rightarrow> comparison_loop df rest comparison_data
      | r0 # rs \<Rightarrow>
          (let latest_year = fold max (map Year rs) (Year r0)
           in case filter (\<lambda>r. Year r = latest_year) (r0 # rs) of
                [] \<Rightarrow> Inl (PyExc IndexError ''index 0 is out of bounds'')
              | r # _ \<Rightarrow>
                  comparison_loop df rest
                    (comparison_data @ [(country, latest_year, Per_Capita_CO2_kg r)])))"

definition comparison_snapshot ::
  "dataframe option \<Rightarrow> string list \<Rightarrow> py_exception + comparison_entry list" where
  "comparison_snapshot df countries = comparison_loop df countries []"

text \<open>
  What an entry of the comparison has to be: the value of a row of that country whose
  year is the country's latest.
\<close>

definition latest_of :: "dataframe \<Rightarrow> comparison_entry \<Rightarrow> bool" where
  "latest_of d entry =
     (case entry of (c, y, v) \<Rightarrow>
        (\<exists>r\<in>set d. Country r = c \<and> Year r = y \<and> Per_Capita_CO2_kg r = v)
        \<and> (\<forall>r\<in>set d. Country r = c \<longrightarrow> Year r \<le> y))"

section \<open>Loading the resources\<close>

text \<open>
  What lies outside the program: the outcome of reading the CSV file, of loading the
  pickled model, of fitting the scikit-learn pipeline on a frame, and of writing the
  fitted pipeline to disk (\<open>None\<close>: written; \<open>Some e\<close>: \<^verbatim>\<open>joblib.dump\<close> raised \<open>e\<close>).
\<close>

record env =
  read_csv :: "py_exception + (string \<times> int \<times> double) list"
  joblib_load :: "py_exception + predictor"
  fit :: "dataframe \<Rightarrow> py_exception + predictor"
  joblib_dump :: "predictor \<Rightarrow> py_exception option"

text \<open>\<^verbatim>\<open>rebuild_model\<close>: fit, save, return; any exception is reported and gives \<^verbatim>\<open>None\<close>.\<close>

definition rebuild_model :: "env \<Rightarrow> dataframe \<Rightarrow> predictor option \<times> event list" where
  "rebuild_model env emissions_df =
     (case fit env emissions_df of
        Inl e \<Rightarrow>
          (None, [Fit emissions_df, St_error (''Error rebuilding model: '' @ message e)])
      | Inr model \<Rightarrow>
          (case joblib_dump env model of
             Some e \<Rightarrow>
               (None, [Fit emissions_df, Joblib_dump,
                       St_error (''Error rebuilding model: '' @ message e)])
           | None \<Rightarrow> (Some model, [Fit emissions_df, Joblib_dump])))"

text \<open>The inner \<^verbatim>\<open>try\<close> block of \<^verbatim>\<open>load_resources\<close>: load the model and test it.\<close>

definition load_model_try :: "env \<Rightarrow> (py_exception + predictor) \<times> event list" where
  "load_model_try env =
     (case joblib_load env of
        Inl e \<Rightarrow> (Inl e, [Joblib_load])
      | Inr model \<Rightarrow>
          (case model ''United States'' 2020 of
             Inl e \<Rightarrow> (Inl e, [Joblib_load, Predict ''United States'' 2020])
           | Inr test_prediction \<Rightarrow> (Inr model, [Joblib_load, Predict ''United States'' 2020])))"

type_synonym resources = "predictor option \<times> dataframe option \<times> string list"

definition load_resources :: "env \<Rightarrow> resources \<times> event list" where
  "load_resources env =
     (case read_csv env of
        Inl e \<Rightarrow>
          (if exc_class e = FileNotFoundError
           then ((None, None, []),
                 [St_error (''Required files not found: '' @ message e),
                  St_info ''Please ensure country_emissions.csv and country_emissions_model.pkl are in the same directory''])
           else ((None, None, []), [St_error (''Error loading resources: '' @ message e)]))
      | Inr raw \<Rightarrow>
          (let emissions_df = frame_of raw;
               country_list = sort (remdups (map Country emissions_df))
           in case load_model_try env of
                (Inr model, evs) \<Rightarrow> ((Some model, Some emissions_df, country_list), evs)
              | (Inl e, evs) \<Rightarrow>
                  (case rebuild_model env emissions_df of
                     (None, evs') \<Rightarrow>
                       ((None, Some emissions_df, country_list),
                        evs @ [St_warning ''Original model has issues. Rebuilding model...'']
                          @ evs' @ [St_error ''Failed to create a working model''])
                   | (Some model, evs') \<Rightarrow>
                       ((Some model, Some emissions_df, country_list),
                        evs @ [St_warning ''Original model has issues. Rebuilding model...'']
                          @ evs'))))"

section \<open>The page\<close>

text \<open>
  \<^verbatim>\<open>main\<close>, with the user's widget choices as arguments.  The result lists what was
  shown, in order, and the exception that ended the script, if any.  A \<open>View_\<close> event
  stands for one section of the page; the chart sections catch their own exceptions.
\<close>

definition render_country ::
  "predictor option \<Rightarrow> dataframe option \<Rightarrow> string \<Rightarrow> int \<Rightarrow> string list
     \<Rightarrow> event list \<times> py_exception option" where
  "render_country model emissions_df selected_country analysis_year compare_countries =
     (let country_data = get_country_data emissions_df selected_country
      in if country_data = [] then ([], None)
         else
           (case current_emissions model country_data selected_country analysis_year of
              (Inl e, evs) \<Rightarrow> (evs, Some e)
            | (Inr ce, evs) \<Rightarrow>
                (case historical_peak country_data of
                   Inl e \<Rightarrow> (evs, Some e)
                 | Inr (peak, peak_year) \<Rightarrow>
                     (evs @ [View_profile ce peak peak_year, View_trend]
                        @ (if compare_countries = [] then []
                           else case comparison_snapshot emissions_df
                                       (selected_country # compare_countries) of
                                  Inl e \<Rightarrow> [St_error (''Error in comparison section: '' @ message e)]
                                | Inr comparison_data \<Rightarrow>
                                    (if comparison_data = [] then []
                                     else [View_comparison comparison_data]))
                        @ [View_targets (get_reduction_targets ce), View_tips],
                      None))))"

definition main :: "env \<Rightarrow> string \<Rightarrow> int \<Rightarrow> string list \<Rightarrow> event list \<times> py_exception option" where
  "main env selected_country analysis_year compare_countries =
     (case load_resources env of
        ((None, emissions_df, country_list), evs) \<Rightarrow>
          (evs @ [St_error ''Application cannot start without a working model. Please check your data files.''],
           None)
      | ((Some model, emissions_df, country_list), evs) \<Rightarrow>
          (case render_country (Some model) emissions_df selected_country analysis_year
                  compare_countries of
             (evs', Some e) \<Rightarrow> (evs @ [View_header] @ evs', Some e)
           | (evs', None) \<Rightarrow>
               (evs @ [View_header] @ evs' @ [View_download, View_footer], None)))"

section \<open>Classifying events\<close>

text \<open>The events that put a section of the page on the screen, the calls that fit a model, and the
  calls of \<^verbatim>\<open>model.predict\<close>.\<close>

fun is_view :: "event \<Rightarrow> bool" where
  "is_view View_header = True"
| "is_view (View_profile ce peak peak_year) = True"
| "is_view View_trend = True"
| "is_view (View_comparison comparison_data) = True"
| "is_view (View_targets targets) = True"
| "is_view View_tips = True"
| "is_view View_download = True"
| "is_view View_footer = True"
| "is_view _ = False"



section \<open>Example data\<close>

text \<open>
  A small table, as \<^verbatim>\<open>read_csv\<close> would build it from three lines; two model
  objects; and three environments in which the pickled model is missing.
\<close>

definition failing_model :: predictor where
  "failing_model = (\<lambda>country year. Inl (PyExc ValueError ''unknown categories''))"

definition constant_model :: predictor where
  "constant_model = (\<lambda>country year. Inr [Finite 42 0])"

definition demo_raw :: "(string \<times> int \<times> double) list" where
  "demo_raw = [(''B'', 2019, Finite 300 0), (''A'', 2019, Finite 100 0), (''A'', 2018, Finite 90 0)]"

definition env_dump_fails :: env where
  "env_dump_fails =
     \<lparr>read_csv = Inr demo_raw,
      joblib_load = Inl (PyExc FileNotFoundError ''country_emissions_model.pkl''),
      fit = (\<lambda>df. Inr constant_model),
      joblib_dump = (\<lambda>model. Some (PyExc OSError ''No space left on device''))\<rparr>"

definition env_fit_fails :: env where
  "env_fit_fails =
     \<lparr>read_csv = Inr demo_raw,
      joblib_load = Inl (PyExc FileNotFoundError ''country_emissions_model.pkl''),
      fit = (\<lambda>df. Inl (PyExc ValueError ''could not convert string to float'')),
      joblib_dump = (\<lambda>model. None)\<rparr>"

definition env_no_artifact :: env where
  "env_no_artifact =
     \<lparr>read_csv = Inr demo_raw,
      joblib_load = Inl (PyExc FileNotFoundError ''country_emissions_model.pkl''),
      fit = (\<lambda>df. Inr constant_model),
      joblib_dump = (\<lambda>model. None)\<rparr>"


definition demo_frame :: dataframe where
  "demo_frame = frame_of demo_raw"

section \<open>The series of a country\<close>

lemma distinct_years_of_country:
  assumes "distinct (map (\<lambda>r. (Country r, Year r)) d)"
  shows "distinct (map Year (filter (\<lambda>r. Country r = country) d))"
proof -
  have "distinct (map (\<lambda>r. (Country r, Year r)) (filter (\<lambda>r. Country r = country) d))"
    using assms by (rule distinct_map_filter)
  moreover have "map (\<lambda>r. (Country r, Year r)) (filter (\<lambda>r. Country r = country) d)
      = map (\<lambda>y. (country, y)) (map Year (filter (\<lambda>r. Country r = country) d))"
    by (induction d) auto
  ultimately show ?thesis
    by (metis distinct_map)
qed

lemma distinct_map_sort_key:
  "distinct (map f (sort_key k xs)) = distinct (map f xs)"
proof -
  have "mset (map f (sort_key k xs)) = mset (map f xs)"
    by simp
  then show ?thesis
    by (rule mset_eq_imp_distinct_iff)
qed

text \<open>
  Claim C9.  Called with \<^verbatim>\<open>None\<close> in place of the table, \<^verbatim>\<open>get_country_data\<close>
  returns an empty frame for every country; it does not raise.
\<close>

theorem get_country_data_none: "get_country_data None country = []"
  by (simp add: get_country_data_def)

text \<open>
  Claim C6.  For every table and country, \<^verbatim>\<open>get_country_data\<close> returns exactly the
  rows of that country (each as often as the table holds it), in ascending order of
  year; the order is strict when no (country, year) pair occurs twice in the table;
  and the result is empty when the country has no rows.
\<close>

theorem get_country_data_series:
  "mset (get_country_data (Some d) country) = filter_mset (\<lambda>r. Country r = country) (mset d)
   \<and> sorted (map Year (get_country_data (Some d) country))
   \<and> (distinct (map (\<lambda>r. (Country r, Year r)) d)
        \<longrightarrow> sorted_wrt (<) (map Year (get_country_data (Some d) country)))
   \<and> (country \<notin> Country ` set d \<longrightarrow> get_country_data (Some d) country = [])"
proof -
  let ?rows = "filter (\<lambda>r. Country r = country) d"
  have a: "mset (get_country_data (Some d) country) = filter_mset (\<lambda>r. Country r = country) (mset d)"
    by (simp add: get_country_data_def)
  have b: "sorted (map Year (get_country_data (Some d) country))"
    by (simp add: get_country_data_def)
  have c: "sorted_wrt (<) (map Year (get_country_data (Some d) country))"
    if "distinct (map (\<lambda>r. (Country r, Year r)) d)"
  proof -
    have "distinct (map Year (sort_key Year ?rows))"
      using distinct_years_of_country [OF that] by (simp only: distinct_map_sort_key)
    with b show ?thesis
      by (simp add: get_country_data_def strict_sorted_iff)
  qed
  have e: "get_country_data (Some d) country = []" if "country \<notin> Country ` set d"
  proof -
    have "?rows = []" using that by (auto simp: filter_empty_conv)
    then show ?thesis by (simp add: get_country_data_def)
  qed
  from a b c e show ?thesis by blast
qed

theorem get_country_data_series_witness:
  "distinct (map (\<lambda>r. (Country r, Year r)) demo_frame)
   \<and> map Year (get_country_data (Some demo_frame) ''A'') = [2018, 2019]
   \<and> sorted_wrt (<) (map Year (get_country_data (Some demo_frame) ''A''))
   \<and> ''Z'' \<notin> Country ` set demo_frame
   \<and> get_country_data (Some demo_frame) ''Z'' = []"
  using get_country_data_series [of demo_frame "''A''"]
    get_country_data_series [of demo_frame "''Z''"]
  by (simp add: demo_frame_def demo_raw_def frame_of_def get_country_data_def)

lemma set_get_country_data:
  "set (get_country_data (Some d) country) = {r \<in> set d. Country r = country}"
  by (auto simp: get_country_data_def)

section \<open>The current value\<close>

text \<open>
  Claim C1.  For every model, country and year \<^verbatim>\<open>calculate_emissions\<close> returns a
  value and raises nothing; whenever its \<^verbatim>\<open>try\<close> block raises, and in particular
  when \<^verbatim>\<open>model.predict\<close> raises, the value returned is the fallback \<open>5000.0\<close>
  (and the error is shown with \<^verbatim>\<open>st.error\<close>).
\<close>

theorem calculate_emissions_never_raises:
  "(\<exists>v. fst (calculate_emissions model country year) = Inr v)
   \<and> (\<forall>e. fst (calculate_emissions_try model country year) = Inl e
          \<longrightarrow> fst (calculate_emissions model country year) = Inr lit_5000)
   \<and> (\<forall>p e. model = Some p \<and> p country year = Inl e
          \<longrightarrow> calculate_emissions model country year
              = (Inr lit_5000,
                 [Predict country year, St_error (''Error calculating emissions: '' @ message e)]))"
  by (auto simp: calculate_emissions_def calculate_emissions_try_def
      split: option.splits sum.splits list.splits prod.splits)

theorem calculate_emissions_never_raises_witness:
  "failing_model ''A'' 2025 = Inl (PyExc ValueError ''unknown categories'')
   \<and> calculate_emissions (Some failing_model) ''A'' 2025
       = (Inr (Finite 5000 0),
          [Predict ''A'' 2025, St_error ''Error calculating emissions: unknown categories''])"
  using calculate_emissions_never_raises [of "Some failing_model" "''A''" 2025]
  by (simp add: failing_model_def lit_5000_def)

text \<open>
  Claim C2.  If the table holds a row for (country, year), the current value is the
  stored value of such a row, whatever the model, and no prediction is requested (the
  event list is empty); when (country, year) pairs are unique it is the value of that
  very row.  If the table holds no such row, the current value is what
  \<^verbatim>\<open>calculate_emissions\<close> returns for the model.
\<close>

theorem current_emissions_ground_truth:
  "(\<forall>r\<in>set d. Country r = country \<and> Year r = year \<longrightarrow>
      (\<exists>r'\<in>set d. Country r' = country \<and> Year r' = year \<and>
         (\<forall>model. current_emissions model (get_country_data (Some d) country) country year
                    = (Inr (Per_Capita_CO2_kg r'), []))))
   \<and> (distinct (map (\<lambda>r. (Country r, Year r)) d) \<longrightarrow>
        (\<forall>r\<in>set d. Country r = country \<and> Year r = year \<longrightarrow>
           (\<forall>model. current_emissions model (get_country_data (Some d) country) country year
                      = (Inr (Per_Capita_CO2_kg r), []))))
   \<and> ((\<forall>r\<in>set d. \<not> (Country r = country \<and> Year r = year)) \<longrightarrow>
        current_emissions model (get_country_data (Some d) country) country year
          = calculate_emissions model country year)"
proof -
  let ?cd = "get_country_data (Some d) country"
  have found: "\<exists>r'\<in>set d. Country r' = country \<and> Year r' = year \<and>
         (\<forall>model. current_emissions model ?cd country year = (Inr (Per_Capita_CO2_kg r'), []))"
    if r: "r \<in> set d" "Country r = country" "Year r = year" for r
  proof -
    from r have mem: "r \<in> set ?cd" by (simp add: set_get_country_data)
    then have "filter (\<lambda>r. Year r = year) ?cd \<noteq> []"
      using r(3) by (auto simp: filter_empty_conv)
    then obtain r' rest where f: "filter (\<lambda>r. Year r = year) ?cd = r' # rest"
      by (cases "filter (\<lambda>r. Year r = year) ?cd") auto
    then have "r' \<in> set (filter (\<lambda>r. Year r = year) ?cd)" by simp
    then have r': "r' \<in> set d" "Country r' = country" "Year r' = year"
      by (auto simp: set_get_country_data)
    have "year \<in> set (map Year ?cd)" using mem r(3) by force
    then have "current_emissions model ?cd country year = (Inr (Per_Capita_CO2_kg r'), [])" for model
      by (simp add: current_emissions_def f)
    with r' show ?thesis by blast
  qed
  have uniq: "current_emissions model ?cd country year = (Inr (Per_Capita_CO2_kg r), [])"
    if dist: "distinct (map (\<lambda>r. (Country r, Year r)) d)"
      and r: "r \<in> set d" "Country r = country" "Year r = year" for r model
  proof -
    from found [OF r] obtain r' where r': "r' \<in> set d" "Country r' = country" "Year r' = year"
      and v: "\<forall>model. current_emissions model ?cd country year = (Inr (Per_Capita_CO2_kg r'), [])"
      by blast
    from dist have "inj_on (\<lambda>r. (Country r, Year r)) (set d)"
      by (simp add: distinct_map)
    with r r' have "r' = r" by (auto dest: inj_onD)
    with v show ?thesis by simp
  qed
  have absent: "current_emissions model ?cd country year = calculate_emissions model country year"
    if "\<forall>r\<in>set d. \<not> (Country r = country \<and> Year r = year)"
  proof -
    have "year \<notin> set (map Year ?cd)"
      using that by (auto simp: set_get_country_data)
    then show ?thesis by (simp add: current_emissions_def)
  qed
  from found uniq absent show ?thesis by blast
qed

theorem current_emissions_ground_truth_witness:
  "distinct (map (\<lambda>r. (Country r, Year r)) demo_frame)
   \<and> \<lparr>label = 1, Country = ''A'', Year = 2019, Per_Capita_CO2_kg = Finite 100 0\<rparr> \<in> set demo_frame
   \<and> current_emissions (Some failing_model) (get_country_data (Some demo_frame) ''A'') ''A'' 2019
       = (Inr (Finite 100 0), [])
   \<and> current_emissions (Some constant_model) (get_country_data (Some demo_frame) ''A'') ''A'' 2025
       = calculate_emissions (Some constant_model) ''A'' 2025
   \<and> calculate_emissions (Some constant_model) ''A'' 2025 = (Inr (Finite 42 0), [Predict ''A'' 2025])"
  using current_emissions_ground_truth [of demo_frame "''A''" 2019 "Some failing_model"]
    current_emissions_ground_truth [of demo_frame "''A''" 2025 "Some constant_model"]
  by (simp add: demo_frame_def demo_raw_def frame_of_def constant_model_def
      calculate_emissions_def calculate_emissions_try_def)

section \<open>Resolving the model\<close>

text \<open>
  Claim C3 says that \<^verbatim>\<open>rebuild_model\<close> returns the fitted model even when saving
  it fails.  It does not: \<^verbatim>\<open>joblib.dump\<close> is called inside the same \<^verbatim>\<open>try\<close>
  block as the fit, so its exception reaches the handler, which shows an error and
  returns \<^verbatim>\<open>None\<close>.  Here the fit succeeds and the disk is full.
\<close>

theorem rebuild_model_dump_failure_counterexample:
  "fit env_dump_fails demo_frame = Inr constant_model
   \<and> rebuild_model env_dump_fails demo_frame
       = (None, [Fit demo_frame, Joblib_dump,
                 St_error ''Error rebuilding model: No space left on device''])"
  by (simp add: rebuild_model_def env_dump_fails_def)

text \<open>
  Claim C3, amended.  When the fit succeeds, \<^verbatim>\<open>rebuild_model\<close> returns the fitted
  model if saving it succeeds too; if \<^verbatim>\<open>joblib.dump\<close> raises, nothing propagates,
  the error is shown with \<^verbatim>\<open>st.error\<close>, and the result is \<^verbatim>\<open>None\<close>.
\<close>

theorem rebuild_model_outcomes:
  "fit env emissions_df = Inr model \<Longrightarrow>
     (joblib_dump env model = None \<longrightarrow>
        rebuild_model env emissions_df = (Some model, [Fit emissions_df, Joblib_dump]))
     \<and> (\<forall>e. joblib_dump env model = Some e \<longrightarrow>
          rebuild_model env emissions_df
            = (None, [Fit emissions_df, Joblib_dump,
                      St_error (''Error rebuilding model: '' @ message e)]))"
  by (simp add: rebuild_model_def)

theorem rebuild_model_outcomes_witness:
  "fit env_no_artifact demo_frame = Inr constant_model
   \<and> joblib_dump env_no_artifact constant_model = None
   \<and> fst (rebuild_model env_no_artifact demo_frame) = Some constant_model
   \<and> fit env_dump_fails demo_frame = Inr constant_model
   \<and> joblib_dump env_dump_fails constant_model = Some (PyExc OSError ''No space left on device'')
   \<and> fst (rebuild_model env_dump_fails demo_frame) = None"
  using rebuild_model_outcomes [of env_no_artifact demo_frame constant_model]
    rebuild_model_outcomes [of env_dump_fails demo_frame constant_model]
  by (simp add: env_no_artifact_def env_dump_fails_def)

lemma load_model_try_no_view:
  "load_model_try env = (res, evs) \<Longrightarrow> ev \<in> set evs \<Longrightarrow> \<not> is_view ev"
  by (auto simp: load_model_try_def split: sum.splits)

lemma rebuild_model_no_view:
  "rebuild_model env df = (res, evs) \<Longrightarrow> ev \<in> set evs \<Longrightarrow> \<not> is_view ev"
  by (auto simp: rebuild_model_def split: sum.splits option.splits)

lemma load_resources_no_view: "ev \<in> set (snd (load_resources env)) \<Longrightarrow> \<not> is_view ev"
  by (auto simp: load_resources_def Let_def
      split: sum.splits prod.splits option.splits if_splits
      dest: load_model_try_no_view rebuild_model_no_view)

text \<open>
  Claim C4 says that with the table loaded and no model, the table can still be
  browsed.  It cannot: \<^verbatim>\<open>main\<close> returns right after the error message when
  \<^verbatim>\<open>resources[0] is None\<close>.  Here the table loads, the pickled model is missing
  and the fit fails; the page shows messages only.
\<close>

theorem main_without_model_counterexample:
  "fst (load_resources env_fit_fails) = (None, Some demo_frame, [''A'', ''B''])
   \<and> main env_fit_fails ''A'' 2019 [''B'']
       = ([Joblib_load,
           St_warning ''Original model has issues. Rebuilding model...'',
           Fit demo_frame,
           St_error ''Error rebuilding model: could not convert string to float'',
           St_error ''Failed to create a working model'',
           St_error ''Application cannot start without a working model. Please check your data files.''],
          None)"
  by (simp add: main_def load_resources_def load_model_try_def rebuild_model_def
      env_fit_fails_def demo_frame_def demo_raw_def frame_of_def Let_def)

text \<open>
  Claim C4, amended.  When the table has loaded, the pickled model is unusable and
  rebuilding gives no model, \<^verbatim>\<open>load_resources\<close> still returns the table and the
  country list (with \<^verbatim>\<open>None\<close> for the model), but \<^verbatim>\<open>main\<close> shows an error
  and stops: no section of the page is rendered.
\<close>

theorem main_stops_without_model:
  assumes "read_csv env = Inr raw"
    and "fst (load_model_try env) = Inl e"
    and "fst (rebuild_model env (frame_of raw)) = None"
  shows "fst (load_resources env)
           = (None, Some (frame_of raw), sort (remdups (map Country (frame_of raw))))
     \<and> main env selected_country analysis_year compare_countries
           = (snd (load_resources env)
                @ [St_error ''Application cannot start without a working model. Please check your data files.''],
              None)
     \<and> (\<forall>ev\<in>set (fst (main env selected_country analysis_year compare_countries)). \<not> is_view ev)"
proof -
  have res: "fst (load_resources env)
           = (None, Some (frame_of raw), sort (remdups (map Country (frame_of raw))))"
    using assms by (auto simp: load_resources_def Let_def split: prod.splits sum.splits option.splits)
  then have m: "main env selected_country analysis_year compare_countries
           = (snd (load_resources env)
                @ [St_error ''Application cannot start without a working model. Please check your data files.''],
              None)"
    by (cases "load_resources env") (auto simp: main_def)
  have "\<not> is_view ev" if "ev \<in> set (fst (main env selected_country analysis_year compare_countries))"
    for ev
    using that load_resources_no_view [of ev env] by (auto simp: m)
  with res m show ?thesis by blast
qed

theorem main_stops_without_model_witness:
  "read_csv env_fit_fails = Inr demo_raw
   \<and> fst (load_model_try env_fit_fails) = Inl (PyExc FileNotFoundError ''country_emissions_model.pkl'')
   \<and> fst (rebuild_model env_fit_fails (frame_of demo_raw)) = None
   \<and> fst (load_resources env_fit_fails) = (None, Some (frame_of demo_raw), [''A'', ''B''])
   \<and> filter is_view (fst (main env_fit_fails ''A'' 2019 [''B''])) = []"
  using main_stops_without_model [of env_fit_fails demo_raw
      "PyExc FileNotFoundError ''country_emissions_model.pkl''" "''A''" 2019 "[''B'']"]
  by (simp add: env_fit_fails_def load_model_try_def rebuild_model_def demo_raw_def frame_of_def
      filter_empty_conv Let_def)




section \<open>The comparison of countries\<close>

lemma fold_max_eq_Max: "fold max ys (y::int) = Max (set (y # ys))"
  by (rule Max.set_eq_fold [symmetric])

lemma latest_row:
  assumes rows: "get_country_data (Some d) c = r0 # rs"
  defines "latest_year \<equiv> fold max (map Year rs) (Year r0)"
  shows "\<exists>r rest. filter (\<lambda>r. Year r = latest_year) (r0 # rs) = r # rest
           \<and> r \<in> set d \<and> Country r = c \<and> Year r = latest_year
           \<and> (\<forall>r'\<in>set d. Country r' = c \<longrightarrow> Year r' \<le> latest_year)"
proof -
  have set_rows: "set (r0 # rs) = {r \<in> set d. Country r = c}"
    using set_get_country_data [of d c] by (simp add: rows)
  have ly: "latest_year = Max (Year ` set (r0 # rs))"
    unfolding latest_year_def fold_max_eq_Max by simp
  have "latest_year \<in> Year ` set (r0 # rs)"
    unfolding ly by (rule Max_in) auto
  then obtain x where "x \<in> set (r0 # rs)" "Year x = latest_year"
    by blast
  then have "filter (\<lambda>r. Year r = latest_year) (r0 # rs) \<noteq> []"
    unfolding filter_empty_conv by blast
  then obtain r rest where f: "filter (\<lambda>r. Year r = latest_year) (r0 # rs) = r # rest"
    by (cases "filter (\<lambda>r. Year r = latest_year) (r0 # rs)") auto
  then have "r \<in> set (filter (\<lambda>r. Year r = latest_year) (r0 # rs))"
    by simp
  then have r: "r \<in> set (r0 # rs)" "Year r = latest_year"
    unfolding set_filter by blast+
  have le: "Year r' \<le> latest_year" if "r' \<in> set d" "Country r' = c" for r'
  proof -
    from that have "r' \<in> set (r0 # rs)" by (simp only: set_rows) simp
    then show ?thesis unfolding ly by (intro Max_ge) auto
  qed
  from f r le set_rows show ?thesis by blast
qed

lemma comparison_loop_entries:
  "\<exists>entries. comparison_loop (Some d) countries acc = Inr (acc @ entries)
      \<and> map fst entries = filter (\<lambda>c. c \<in> Country ` set d) countries
      \<and> (\<forall>entry\<in>set entries. latest_of d entry)"
proof (induction countries arbitrary: acc)
  case Nil
  show ?case by simp
next
  case (Cons c cs)
  show ?case
  proof (cases "get_country_data (Some d) c")
    case Nil
    then have "{r \<in> set d. Country r = c} = {}"
      using set_get_country_data [of d c] by simp
    then have "c \<notin> Country ` set d" by auto
    with Nil Cons.IH [of acc] show ?thesis by simp
  next
    case (Cons r0 rs)
    from latest_row [OF Cons] obtain r rest where
      f: "filter (\<lambda>r. Year r = fold max (map Year rs) (Year r0)) (r0 # rs) = r # rest"
      and r: "r \<in> set d" "Country r = c" "Year r = fold max (map Year rs) (Year r0)"
      and le: "\<forall>r'\<in>set d. Country r' = c \<longrightarrow> Year r' \<le> fold max (map Year rs) (Year r0)"
      by blast
    let ?entry = "(c, fold max (map Year rs) (Year r0), Per_Capita_CO2_kg r)"
    from Cons.IH [of "acc @ [?entry]"] obtain entries where
      e: "comparison_loop (Some d) cs (acc @ [?entry]) = Inr ((acc @ [?entry]) @ entries)"
        "map fst entries = filter (\<lambda>c. c \<in> Country ` set d) cs"
        "\<forall>entry\<in>set entries. latest_of d entry"
      by blast
    have run: "comparison_loop (Some d) (c # cs) acc = Inr (acc @ (?entry # entries))"
      using Cons f e(1) by (simp add: Let_def del: filter.simps)
    have mem: "c \<in> Country ` set d" using r by force
    have "latest_of d ?entry"
      unfolding latest_of_def using r le by auto
    with run e(2,3) mem show ?thesis
      by (intro exI [of _ "?entry # entries"]) simp
  qed
qed

text \<open>
  Claim C8.  For every table and every requested list of countries the comparison loop
  ends without an exception and yields, in the order requested, one entry for each
  requested country that has a row: the country, its latest year, and the stored value
  of a row of that country and year.  Countries without rows give no entry.  Without
  a table the result is empty.
\<close>

theorem comparison_snapshot_latest:
  "comparison_snapshot None countries = Inr []
   \<and> (\<exists>entries. comparison_snapshot (Some d) countries = Inr entries
         \<and> map fst entries = filter (\<lambda>c. c \<in> Country ` set d) countries
         \<and> (\<forall>entry\<in>set entries. latest_of d entry))"
proof -
  have "comparison_loop None countries acc = Inr acc" for acc
    by (induction countries arbitrary: acc) (simp_all add: get_country_data_def)
  then have "comparison_snapshot None countries = Inr []"
    by (simp add: comparison_snapshot_def)
  moreover from comparison_loop_entries [of d countries "[]"]
  have "\<exists>entries. comparison_snapshot (Some d) countries = Inr entries
         \<and> map fst entries = filter (\<lambda>c. c \<in> Country ` set d) countries
         \<and> (\<forall>entry\<in>set entries. latest_of d entry)"
    by (simp add: comparison_snapshot_def)
  ultimately show ?thesis by blast
qed

theorem comparison_snapshot_latest_witness:
  "comparison_snapshot (Some demo_frame) [''A'', ''Z''] = Inr [(''A'', 2019, Finite 100 0)]
   \<and> filter (\<lambda>c. c \<in> Country ` set demo_frame) [''A'', ''Z''] = [''A'']
   \<and> latest_of demo_frame (''A'', 2019, Finite 100 0)"
  using comparison_snapshot_latest [of "[''A'', ''Z'']" demo_frame]
  by (auto simp: comparison_snapshot_def get_country_data_def demo_frame_def demo_raw_def
      frame_of_def latest_of_def)

section \<open>The order of floats\<close>

lemma power_int_split:
  fixes e e1 :: int
  assumes "e \<le> e1"
  shows "(2::real) powi e1 = 2 powi e * 2 ^ nat (e1 - e)"
proof -
  have "(2::real) powi e1 = 2 powi (e + int (nat (e1 - e)))"
    using assms by simp
  also have "\<dots> = 2 powi e * 2 powi int (nat (e1 - e))"
    by (rule power_int_add) simp
  also have "(2::real) powi int (nat (e1 - e)) = 2 ^ nat (e1 - e)"
    by (rule power_int_of_nat)
  finally show ?thesis .
qed

lemma dlt_Finite_real:
  "dlt (Finite m1 e1) (Finite m2 e2) \<longleftrightarrow> (of_int m1 * 2 powi e1 :: real) < of_int m2 * 2 powi e2"
proof -
  define e where "e = min e1 e2"
  have p: "(0::real) < 2 powi e" by simp
  have "(of_int m1 * 2 powi e1 :: real) = 2 powi e * of_int (m1 * 2 ^ nat (e1 - e))"
    using power_int_split [of e e1] by (simp add: e_def)
  moreover have "(of_int m2 * 2 powi e2 :: real) = 2 powi e * of_int (m2 * 2 ^ nat (e2 - e))"
    using power_int_split [of e e2] by (simp add: e_def)
  ultimately have "(of_int m1 * 2 powi e1 :: real) < of_int m2 * 2 powi e2
      \<longleftrightarrow> (of_int (m1 * 2 ^ nat (e1 - e)) :: real) < of_int (m2 * 2 ^ nat (e2 - e))"
    using p by (simp only: mult_less_cancel_left_pos)
  also have "\<dots> \<longleftrightarrow> m1 * 2 ^ nat (e1 - e) < m2 * 2 ^ nat (e2 - e)"
    by (simp only: of_int_less_iff)
  finally show ?thesis by (simp add: e_def Let_def)
qed






section \<open>The historical peak\<close>











section \<open>Rounding to a double\<close>

text \<open>The literals \<^verbatim>\<open>0.3\<close> and \<^verbatim>\<open>0.1\<close> are within half a unit in the last place of the decimals.\<close>

lemma literals_nearest:
  "\<bar>(5404319552844595 / 2 ^ 54 :: real) - 3 / 10\<bar> \<le> 1 / 2 ^ 55"
  "\<bar>(3602879701896397 / 2 ^ 55 :: real) - 1 / 10\<bar> \<le> 1 / 2 ^ 57"
  "(2::int) ^ 52 \<le> 5404319552844595 \<and> (5404319552844595::int) < 2 ^ 53"
  "(2::int) ^ 52 \<le> 2 * 3602879701896397 \<and> (2 * 3602879701896397::int) < 2 ^ 53"
  by simp_all

text \<open>
  The rounding error of a positive product that stays below \<open>2 ^ 1023\<close>: at most half
  of the spacing of the doubles around it, which is \<open>2 ^ - 1074\<close> for the smallest
  numbers and at most \<open>2 ^ - 52\<close> times the number otherwise.
\<close>

lemma bit_length_bounds:
  "0 < n \<Longrightarrow> 1 \<le> bit_length n \<and> 2 ^ nat (bit_length n - 1) \<le> n \<and> n < 2 ^ nat (bit_length n)"
proof (induction n rule: bit_length.induct)
  case (1 n)
  show ?case
  proof (cases "n div 2 \<le> 0")
    case True
    with "1.prems" have n: "n = 1" by linarith
    have "bit_length n = 1"
      unfolding n by (simp add: bit_length.simps [of 1] bit_length.simps [of 0])
    then show ?thesis by (simp add: n)
  next
    case False
    define h where "h = n div 2"
    define k where "k = bit_length h"
    from False have hpos: "0 < h" by (simp add: h_def)
    from "1.IH" "1.prems" hpos have ih: "1 \<le> k" "2 ^ nat (k - 1) \<le> h" "h < 2 ^ nat k"
      by (simp_all add: h_def k_def)
    have bl: "bit_length n = 1 + k"
      using "1.prems" by (subst bit_length.simps) (simp add: h_def k_def)
    have nk: "nat k = Suc (nat (k - 1))" using ih(1) by simp
    have "(2::int) ^ nat k = 2 * 2 ^ nat (k - 1)" by (subst nk) simp
    with ih(2) have lo: "2 ^ nat k \<le> 2 * h" by simp
    have n2: "2 * h \<le> n" "n \<le> 2 * h + 1" unfolding h_def by linarith+
    have "nat (1 + k) = Suc (nat k)" using ih(1) by simp
    then have up: "(2::int) ^ nat (1 + k) = 2 * 2 ^ nat k" by simp
    from lo n2 ih(3) up ih(1) show ?thesis
      by (simp add: bl)
  qed
qed

lemma round_half_even_error:
  assumes "0 \<le> a"
  shows "0 \<le> round_half_even a s \<and> 2 * \<bar>round_half_even a s * 2 ^ s - a\<bar> \<le> 2 ^ s"
proof -
  define P :: int where "P = 2 ^ s"
  define f where "f = a div P"
  define r where "r = a mod P"
  have P: "0 < P" by (simp add: P_def)
  have a: "a = f * P + r" by (simp add: f_def r_def)
  have r: "0 \<le> r" "r < P" using P by (simp_all add: r_def)
  have f: "0 \<le> f" using assms P by (simp add: f_def pos_imp_zdiv_nonneg_iff)
  have d: "(f + 1) * P = f * P + P" by (simp add: algebra_simps)
  show ?thesis
    unfolding round_half_even_def Let_def P_def [symmetric] f_def [symmetric] r_def [symmetric]
    using r f d by (auto simp: a)
qed

lemma round_to_double_pos:
  fixes M E :: int
  assumes M: "0 < M" and small: "real_of_int M * 2 powi E < 2 powi 1023"
  shows "\<exists>q e. round_to_double M E = Finite q e \<and>
           \<bar>real_of_int q * 2 powi e - real_of_int M * 2 powi E\<bar> * 2
             \<le> max (2 powi (- 1074)) (real_of_int M * 2 powi E * 2 powi (- 52))"
proof -
  define x :: real where "x = of_int M * 2 powi E"
  define n where "n = bit_length \<bar>M\<bar>"
  define e0 where "e0 = max (E + n - 53) (- 1074)"
  define q0 where "q0 = (if e0 \<le> E then \<bar>M\<bar> * 2 ^ nat (E - e0)
                         else round_half_even \<bar>M\<bar> (nat (e0 - E)))"
  define u :: real where "u = 2 powi e0"
  have absM: "\<bar>M\<bar> = M" using M by simp
  have upos: "0 < u" by (simp add: u_def)
  from bit_length_bounds [OF M] have n: "1 \<le> n" "2 ^ nat (n - 1) \<le> M"
    by (simp_all add: n_def absM)
  have "E + n - 1 = E + int (nat (n - 1))"
    using n(1) by simp
  then have "(2::real) powi (E + n - 1) = 2 powi (E + int (nat (n - 1)))"
    by (simp only:)
  also have "\<dots> = 2 powi E * 2 powi int (nat (n - 1))"
    by (rule power_int_add) simp
  also have "\<dots> = 2 powi E * real_of_int (2 ^ nat (n - 1))"
    unfolding power_int_of_nat by simp
  also have "\<dots> \<le> 2 powi E * real_of_int M"
    using n(2) by (intro mult_left_mono) (simp_all only: of_int_le_iff zero_le_power_int zero_le_numeral)
  finally have lowx: "2 powi (E + n - 1) \<le> x"
    by (simp add: x_def mult.commute)
  have "(2::real) powi (E + n - 1) < 2 powi 1023"
    using lowx small by (simp add: x_def)
  then have "E + n - 1 < 1023"
    by (rule power_int_le_imp_less_exp [rotated]) simp_all
  then have e0_le: "e0 \<le> 970" by (simp add: e0_def)
  have A: "\<bar>real_of_int q0 * u - x\<bar> * 2 \<le> u"
  proof (cases "e0 \<le> E")
    case True
    have "2 powi E = u * 2 ^ nat (E - e0)"
      unfolding u_def using power_int_split [OF True] .
    then have "real_of_int q0 * u = x"
      using True by (simp add: q0_def x_def absM)
    with upos show ?thesis by simp
  next
    case False
    define s where "s = nat (e0 - E)"
    have "u = 2 powi E * 2 ^ s"
      unfolding u_def s_def using power_int_split [of E e0] False by simp
    then have pE: "2 powi E = u / 2 ^ s" by simp
    have q0: "q0 = round_half_even M s" using False by (simp add: q0_def s_def absM)
    from round_half_even_error [of M s] M
    have "2 * \<bar>q0 * 2 ^ s - M\<bar> \<le> 2 ^ s" by (simp add: q0)
    then have "real_of_int (2 * \<bar>q0 * 2 ^ s - M\<bar>) \<le> real_of_int (2 ^ s)"
      by (simp only: of_int_le_iff)
    then have i: "2 * \<bar>real_of_int q0 * 2 ^ s - real_of_int M\<bar> \<le> 2 ^ s"
      by simp
    have "real_of_int q0 * u - x = (real_of_int q0 * 2 ^ s - real_of_int M) * (u / 2 ^ s)"
      by (simp add: x_def pE field_simps)
    then have "\<bar>real_of_int q0 * u - x\<bar> * 2
        = (2 * \<bar>real_of_int q0 * 2 ^ s - real_of_int M\<bar>) * (u / 2 ^ s)"
      using upos by (simp add: abs_mult)
    also have "\<dots> \<le> 2 ^ s * (u / 2 ^ s)"
      using i upos by (intro mult_right_mono) simp_all
    finally show ?thesis by simp
  qed
  have B: "u \<le> max (2 powi (- 1074)) (x * 2 powi (- 52))"
  proof (cases "E + n - 53 \<le> - 1074")
    case True
    then show ?thesis by (simp add: u_def e0_def max_def)
  next
    case False
    then have "e0 = (E + n - 1) + (- 52)" by (simp add: e0_def)
    moreover have "(2::real) powi ((E + n - 1) + (- 52)) = 2 powi (E + n - 1) * 2 powi (- 52)"
      by (rule power_int_add) simp
    ultimately have "u = 2 powi (E + n - 1) * 2 powi (- 52)"
      unfolding u_def by (simp only:)
    also have "\<dots> \<le> x * 2 powi (- 52)"
      using lowx by (intro mult_right_mono) simp_all
    finally show ?thesis by simp
  qed
  define q' where "q' = (if q0 = 2 ^ 53 then 2 ^ 52 else q0)"
  define e' where "e' = (if q0 = 2 ^ 53 then e0 + 1 else e0)"
  have e'_le: "\<not> 971 < e'" using e0_le by (simp add: e'_def)
  have res: "round_to_double M E = Finite q' e'"
    using M e'_le
    unfolding round_to_double_def Let_def n_def [symmetric] e0_def [symmetric]
      q0_def [symmetric] q'_def [symmetric] e'_def [symmetric]
    by simp
  have "real_of_int q' * 2 powi e' = real_of_int q0 * u"
    by (simp add: q'_def e'_def u_def power_int_add_1)
  with A B res show ?thesis
    unfolding x_def by (intro exI [of _ q'] exI [of _ e']) simp
qed

lemma round_to_double_near:
  fixes M E :: int
  assumes "0 < M" and "real_of_int M * 2 powi E < 2 powi 1023"
  shows "\<exists>q e. round_to_double M E = Finite q e \<and>
           \<bar>real_of_int q * 2 powi e - real_of_int M * 2 powi E\<bar> * 2
             \<le> 2 powi (- 1074) + real_of_int M * 2 powi E * 2 powi (- 52)"
proof -
  from round_to_double_pos [OF assms] obtain q e where
    r: "round_to_double M E = Finite q e"
    and b: "\<bar>real_of_int q * 2 powi e - real_of_int M * 2 powi E\<bar> * 2
             \<le> max (2 powi (- 1074)) (real_of_int M * 2 powi E * 2 powi (- 52))"
    by blast
  have "0 \<le> real_of_int M * 2 powi E * 2 powi (- 52)"
    using assms(1) by simp
  moreover have "(0::real) \<le> 2 powi (- 1074)" by simp
  ultimately have "max (2 powi (- 1074)) (real_of_int M * 2 powi E * 2 powi (- 52))
      \<le> 2 powi (- 1074) + real_of_int M * 2 powi E * 2 powi (- 52)"
    by (simp only: max_def) (simp split: if_splits)
  with r b show ?thesis by (intro exI [of _ q] exI [of _ e]) simp
qed

lemma scaled_value:
  "real_of_int (m * c) * 2 powi (e + k) = (real_of_int m * 2 powi e) * (real_of_int c * 2 powi k)"
proof -
  have "(2::real) powi (e + k) = 2 powi e * 2 powi k"
    by (rule power_int_add) simp
  then show ?thesis by simp
qed

section \<open>The reduction targets\<close>

text \<open>
  Claim C7 says that the three targets are \<open>0.5 v\<close>, \<open>0.3 v\<close> and \<open>0.1 v\<close> and that
  for every \<open>v > 0\<close> they are strictly ordered below \<open>v\<close>.  The products are
  floating-point products.  For the smallest positive double, \<open>2 ^ - 1074\<close> (printed
  \<^verbatim>\<open>5e-324\<close>), all three round to zero, and \<^verbatim>\<open>0.0 < 0.0\<close> is false.
\<close>

theorem reduction_targets_chain_counterexample:
  "is_double (Finite 1 (- 1074))
   \<and> dlt (Finite 0 0) (Finite 1 (- 1074))
   \<and> get_reduction_targets (Finite 1 (- 1074))
       = [(''2030 (SDG Target)'', Finite 0 (- 1074)),
          (''2040'', Finite 0 (- 1074)),
          (''2050 (Net Zero)'', Finite 0 (- 1074))]
   \<and> \<not> dlt (Finite 0 (- 1074)) (Finite 0 (- 1074))"
  by code_simp

text \<open>The order also fails at \<open>5 * 2 ^ - 1074\<close> (the 2050 and 2040 targets coincide) and at infinity.\<close>

lemma targets_order_limits:
  "\<not> dlt (fmul (Finite 5 (- 1074)) lit_0_1) (fmul (Finite 5 (- 1074)) lit_0_3)"
  "fmul PosInf lit_0_5 = PosInf \<and> \<not> dlt PosInf PosInf"
  by code_simp+

text \<open>
  Claim C7, amended.  \<^verbatim>\<open>get_reduction_targets\<close> returns exactly three entries, the
  double-precision products of the value with \<^verbatim>\<open>0.5\<close>, \<^verbatim>\<open>0.3\<close> and \<^verbatim>\<open>0.1\<close>; for
  every finite double greater than \<open>5 * 2 ^ - 1074\<close> (about \<^verbatim>\<open>2.5e-323\<close>) the 2050
  target is below the 2040 target, which is below the 2030 target, which is below the
  value.
\<close>

theorem reduction_targets_chain:
  assumes dbl: "is_double (Finite m e)"
    and big: "dlt (Finite 5 (- 1074)) (Finite m e)"
  shows "get_reduction_targets (Finite m e)
           = [(''2030 (SDG Target)'', fmul (Finite m e) lit_0_5),
              (''2040'', fmul (Finite m e) lit_0_3),
              (''2050 (Net Zero)'', fmul (Finite m e) lit_0_1)]
     \<and> dlt (fmul (Finite m e) lit_0_1) (fmul (Finite m e) lit_0_3)
     \<and> dlt (fmul (Finite m e) lit_0_3) (fmul (Finite m e) lit_0_5)
     \<and> dlt (fmul (Finite m e) lit_0_5) (Finite m e)"
proof -
  define q0 :: real where "q0 = 2 powi (- 1074)"
  define t :: real where "t = 2 powi (- 52)"
  define T :: real where "T = 2 powi 1023"
  define x :: real where "x = of_int m * 2 powi e"
  have q0: "0 < q0" by (simp add: q0_def)
  have t: "t = 1 / 4503599627370496" by (simp add: t_def power_int_minus field_simps)
  from dbl have m53: "m < 2 ^ 53" and e: "- 1074 \<le> e" "e \<le> 971" by auto
  \<comment> \<open>the value is a whole multiple of the smallest positive double, so more than 5 means at least 6\<close>
  have xk: "x = real_of_int (m * 2 ^ nat (e + 1074)) * q0"
    using power_int_split [of "- 1074" e] e(1) by (simp add: x_def q0_def)
  from big have "5 * q0 < x"
    by (simp only: dlt_Finite_real) (simp add: x_def q0_def)
  then have "real_of_int 5 < real_of_int (m * 2 ^ nat (e + 1074))"
    using q0 by (simp add: xk)
  then have "5 < m * 2 ^ nat (e + 1074)"
    by (simp only: of_int_less_iff)
  then have "6 \<le> m * 2 ^ nat (e + 1074)"
    by simp
  then have "real_of_int 6 \<le> real_of_int (m * 2 ^ nat (e + 1074))"
    by (simp only: of_int_le_iff)
  then have x6: "6 * q0 \<le> x"
    using q0 by (simp add: xk)
  have mpos: "0 < m"
  proof (rule ccontr)
    assume "\<not> 0 < m"
    then have "real_of_int m \<le> 0" by simp
    then have "x \<le> 0" unfolding x_def by (simp add: mult_le_0_iff)
    with x6 q0 show False by simp
  qed
  \<comment> \<open>the value is below \<open>2 ^ 1024\<close>\<close>
  have "real_of_int m < real_of_int (2 ^ 53)"
    using m53 by (simp only: of_int_less_iff)
  then have "real_of_int m < 2 ^ 53"
    by simp
  then have "x < 2 ^ 53 * 2 powi e"
    unfolding x_def by (intro mult_strict_right_mono) simp_all
  also have "\<dots> \<le> 2 ^ 53 * 2 powi 971"
    using e(2) by (intro mult_left_mono power_int_increasing) simp_all
  also have "\<dots> = 2 powi 53 * 2 powi 971"
    by (simp only: power_int_numeral)
  also have "\<dots> = 2 powi (53 + 971)"
    by (rule power_int_add [symmetric]) simp
  also have "\<dots> = 2 powi (1 + 1023)"
  proof -
    have "(53::int) + 971 = 1 + 1023" by simp
    then show ?thesis by (simp only:)
  qed
  also have "\<dots> = 2 powi 1 * 2 powi 1023"
    by (rule power_int_add) simp
  finally have xtop: "x < 2 * T"
    by (simp only: T_def power_int_1_right)
  \<comment> \<open>the three exact products\<close>
  have x5: "real_of_int (m * 1) * 2 powi (e + - 1) = x / 2"
    unfolding scaled_value x_def by (simp add: power_int_minus)
  have x3: "real_of_int (m * 5404319552844595) * 2 powi (e + - 54)
              = x * (5404319552844595 / 18014398509481984)"
    unfolding scaled_value x_def by (simp add: power_int_minus)
  have x1: "real_of_int (m * 3602879701896397) * 2 powi (e + - 55)
              = x * (3602879701896397 / 36028797018963968)"
    unfolding scaled_value x_def by (simp add: power_int_minus)
  have xpos: "0 < x" using x6 q0 by linarith
  have s5: "real_of_int (m * 1) * 2 powi (e + - 1) < 2 powi 1023"
    unfolding x5 T_def [symmetric] using xtop by linarith
  have s3: "real_of_int (m * 5404319552844595) * 2 powi (e + - 54) < 2 powi 1023"
    unfolding x3 T_def [symmetric] using xtop xpos by linarith
  have s1: "real_of_int (m * 3602879701896397) * 2 powi (e + - 55) < 2 powi 1023"
    unfolding x1 T_def [symmetric] using xtop xpos by linarith
  from round_to_double_near [OF _ s5] mpos obtain q5 e5 where
    near: "round_to_double (m * 1) (e + - 1) = Finite q5 e5"
    and b5: "\<bar>real_of_int q5 * 2 powi e5 - x / 2\<bar> * 2 \<le> q0 + x / 2 * t"
    unfolding x5 q0_def t_def by auto
  from round_to_double_near [OF _ s3] mpos obtain q3 e3 where
    mid: "round_to_double (m * 5404319552844595) (e + - 54) = Finite q3 e3"
    and b3: "\<bar>real_of_int q3 * 2 powi e3 - x * (5404319552844595 / 18014398509481984)\<bar> * 2
               \<le> q0 + x * (5404319552844595 / 18014398509481984) * t"
    unfolding x3 q0_def t_def by auto
  from round_to_double_near [OF _ s1] mpos obtain q1 e1 where
    long: "round_to_double (m * 3602879701896397) (e + - 55) = Finite q1 e1"
    and b1: "\<bar>real_of_int q1 * 2 powi e1 - x * (3602879701896397 / 36028797018963968)\<bar> * 2
               \<le> q0 + x * (3602879701896397 / 36028797018963968) * t"
    unfolding x1 q0_def t_def by auto
  define y1 where "y1 = real_of_int q1 * 2 powi e1"
  define y3 where "y3 = real_of_int q3 * 2 powi e3"
  define y5 where "y5 = real_of_int q5 * 2 powi e5"
  have c1: "y1 < y3"
    using b1 b3 x6 q0 unfolding t y1_def [symmetric] y3_def [symmetric]
    by (simp add: abs_if split: if_splits)
  have c2: "y3 < y5"
    using b3 b5 x6 q0 unfolding t y3_def [symmetric] y5_def [symmetric]
    by (simp add: abs_if split: if_splits)
  have c3: "y5 < x"
    using b5 x6 q0 unfolding t y5_def [symmetric]
    by (simp add: abs_if split: if_splits)
  have f5: "fmul (Finite m e) lit_0_5 = Finite q5 e5"
    using near by (simp add: lit_0_5_def)
  have f3: "fmul (Finite m e) lit_0_3 = Finite q3 e3"
    using mid by (simp add: lit_0_3_def)
  have f1: "fmul (Finite m e) lit_0_1 = Finite q1 e1"
    using long by (simp add: lit_0_1_def)
  have "dlt (Finite q1 e1) (Finite q3 e3)" "dlt (Finite q3 e3) (Finite q5 e5)"
    "dlt (Finite q5 e5) (Finite m e)"
    using c1 c2 c3 by (simp_all only: dlt_Finite_real x_def y1_def y3_def y5_def)
  then show ?thesis
    by (simp only: f1 f3 f5 get_reduction_targets_def)
qed

theorem reduction_targets_chain_witness:
  "is_double (Finite 100 0)
   \<and> dlt (Finite 5 (- 1074)) (Finite 100 0)
   \<and> map fst (get_reduction_targets (Finite 100 0)) = [''2030 (SDG Target)'', ''2040'', ''2050 (Net Zero)'']
   \<and> deq (fmul (Finite 100 0) lit_0_5) (Finite 50 0)
   \<and> deq (fmul (Finite 100 0) lit_0_3) (Finite 30 0)
   \<and> deq (fmul (Finite 100 0) lit_0_1) (Finite 10 0)
   \<and> dlt (fmul (Finite 100 0) lit_0_1) (fmul (Finite 100 0) lit_0_3)
   \<and> dlt (fmul (Finite 100 0) lit_0_3) (fmul (Finite 100 0) lit_0_5)
   \<and> dlt (fmul (Finite 100 0) lit_0_5) (Finite 100 0)"
proof -
  have h1: "is_double (Finite 100 0)" by simp
  have h2: "dlt (Finite 5 (- 1074)) (Finite 100 0)" by code_simp
  have v: "deq (fmul (Finite 100 0) lit_0_5) (Finite 50 0)"
    "deq (fmul (Finite 100 0) lit_0_3) (Finite 30 0)"
    "deq (fmul (Finite 100 0) lit_0_1) (Finite 10 0)"
    by code_simp+
  from reduction_targets_chain [OF h1 h2] h1 h2 v show ?thesis
    by simp
qed

end
